theory Spec2Isabelle
  imports Main "HOL-Library.Char_ord" "HOL-Library.List_Lexorder" "HOL-Library.Sublist"
begin

section \<open>Values, rows and errors\<close>

text \<open>
  The components of \<open>src/components/Nav.tsx\<close> keep what the remote backend returns in
  state of type \<open>any\<close>. A cell is one of the JavaScript values the code reads; a row is
  an object, kept as an association list from column names to cells. A number is
  carried as the text that JavaScript prints for it (\<open>4500\<close>, \<open>0.5\<close>, \<open>1e+21\<close>, \<open>NaN\<close>):
  the code only interpolates numbers, tests them for truth and passes them on. Strings
  are sequences of UTF-8 bytes.
\<close>

datatype jsval =
    Undefined
  | Null
  | Str string
  | Num string
  | Arr "jsval list"
  | Obj "(string \<times> jsval) list"

type_synonym row = "(string \<times> jsval) list"

definition cell :: "row \<Rightarrow> string \<Rightarrow> jsval" where
  \<comment> \<open>property access \<open>r.c\<close>: a missing property reads as \<open>undefined\<close>\<close>
  "cell r c = (case map_of r c of None \<Rightarrow> Undefined | Some v \<Rightarrow> v)"

fun string_of_nat :: "nat \<Rightarrow> string" where
  "string_of_nat n =
     (if n < 10 then [''0123456789'' ! n]
      else string_of_nat (n div 10) @ [''0123456789'' ! (n mod 10)])"

declare string_of_nat.simps [simp del]

fun join_with :: "string \<Rightarrow> string list \<Rightarrow> string" where
  \<comment> \<open>\<open>xs.join(sep)\<close>\<close>
  "join_with sep [] = []"
| "join_with sep [x] = x"
| "join_with sep (x # y # ys) = x @ sep @ join_with sep (y # ys)"

fun to_text :: "jsval \<Rightarrow> string" where
  \<comment> \<open>what a template literal \<open>${x}\<close> interpolates\<close>
  "to_text Undefined = ''undefined''"
| "to_text Null = ''null''"
| "to_text (Str s) = s"
| "to_text (Num n) = n"
| "to_text (Arr xs) =
     join_with '','' (map (\<lambda>x. if x = Undefined \<or> x = Null then [] else to_text x) xs)"
| "to_text (Obj fs) = ''[object Object]''"

fun truthy :: "jsval \<Rightarrow> bool" where
  "truthy Undefined = False"
| "truthy Null = False"
| "truthy (Str s) = (s \<noteq> [])"
| "truthy (Num n) = (n \<noteq> ''0'' \<and> n \<noteq> ''NaN'')"
| "truthy (Arr xs) = True"
| "truthy (Obj fs) = True"

definition or_else :: "jsval \<Rightarrow> jsval \<Rightarrow> jsval" where
  \<comment> \<open>the operator \<open>a || b\<close>\<close>
  "or_else a b = (if truthy a then a else b)"

text \<open>
  A value that is thrown or returned in the \<open>error\<close> slot of a result. The code tells an
  \<open>Error\<close> instance from anything else (\<open>error instanceof Error\<close>) and reads its message.
\<close>

datatype js_error = ErrorInstance string | PlainObject string

text \<open>The session user of the store, read as \<open>user?.id\<close>, \<open>user?.full_name\<close>, \<open>user?.email\<close>.\<close>

record user =
  user_id :: jsval
  full_name :: jsval
  email :: jsval

definition opt_chain :: "user option \<Rightarrow> (user \<Rightarrow> jsval) \<Rightarrow> jsval" where
  \<comment> \<open>optional chaining \<open>user?.f\<close>\<close>
  "opt_chain u f = (case u of None \<Rightarrow> Undefined | Some x \<Rightarrow> f x)"

definition param :: "string option \<Rightarrow> jsval" where
  \<comment> \<open>the route parameter \<open>id\<close>, of type \<open>string | undefined\<close>\<close>
  "param p = (case p of None \<Rightarrow> Undefined | Some s \<Rightarrow> Str s)"

section \<open>The remote backend\<close>

text \<open>
  Modelled from the spec: the remote data backend and the object storage that the
  components reach through the client of \<open>lib/supabase\<close> (section 6: table-oriented
  read, insert, update and delete with filtering and ordering; a single-row fetch that
  fails if zero or multiple rows match; bucket listing and creation, object upload with
  overwrite protection, object removal). Joined columns of a select are carried in the
  query and not materialised; columns the server fills in on insert are not modelled.
\<close>

record backend =
  buckets :: "string list"
  objects :: "(string \<times> string) list"
  tables :: "string \<Rightarrow> row list"

record query =
  q_table :: string
  q_columns :: "string list"
  q_filters :: "(string \<times> jsval) list"
  q_order :: "(string \<times> bool) option"

definition from_table :: "string \<Rightarrow> query" where
  "from_table t = \<lparr>q_table = t, q_columns = [], q_filters = [], q_order = None\<rparr>"

definition select_cols :: "string list \<Rightarrow> query \<Rightarrow> query" where
  "select_cols cs q = q\<lparr>q_columns := cs\<rparr>"

definition eq_filter :: "string \<Rightarrow> jsval \<Rightarrow> query \<Rightarrow> query" where
  \<comment> \<open>\<open>.eq(column, value)\<close>: the builder adds the filter to itself\<close>
  "eq_filter c v q = q\<lparr>q_filters := q_filters q @ [(c, v)]\<rparr>"

definition order_by :: "string \<Rightarrow> bool \<Rightarrow> query \<Rightarrow> query" where
  "order_by c ascending q = q\<lparr>q_order := Some (c, ascending)\<rparr>"

fun matches :: "(string \<times> jsval) list \<Rightarrow> row \<Rightarrow> bool" where
  "matches [] r = True"
| "matches ((c, v) # fs) r = (cell r c = v \<and> v \<noteq> Undefined \<and> v \<noteq> Null \<and> matches fs r)"

definition sort_rows :: "(string \<times> bool) option \<Rightarrow> row list \<Rightarrow> row list" where
  "sort_rows ord rs =
     (case ord of
        None \<Rightarrow> rs
      | Some (c, ascending) \<Rightarrow>
          (let s = sort_key (\<lambda>r. to_text (cell r c)) rs in if ascending then s else rev s))"

definition project :: "string list \<Rightarrow> row \<Rightarrow> row" where
  "project cs r = (if ''*'' \<in> set cs then r else filter (\<lambda>(c, v). c \<in> set cs) r)"

definition matching_rows :: "backend \<Rightarrow> query \<Rightarrow> row list" where
  "matching_rows b q = sort_rows (q_order q) (filter (matches (q_filters q)) (tables b (q_table q)))"

definition run_select :: "backend \<Rightarrow> query \<Rightarrow> row list" where
  "run_select b q = map (project (q_columns q)) (matching_rows b q)"

text \<open>
  Each remote call can go three ways: it takes effect and resolves with data, it
  resolves with \<open>{data: null, error}\<close>, or its promise rejects.
\<close>

datatype fault = NoFault | Fails js_error | Throws js_error

type_synonym 'a response = "js_error + ('a option \<times> js_error option)"

fun respond :: "fault \<Rightarrow> 'a \<Rightarrow> 'a response" where
  "respond NoFault d = Inr (Some d, None)"
| "respond (Fails e) d = Inr (None, Some e)"
| "respond (Throws e) d = Inl e"

section \<open>Effects\<close>

text \<open>A \<open>File\<close>: its name, its type and its size, a number.\<close>

record js_file =
  file_name :: string
  file_type :: string
  file_size :: string

record upload_options =
  cacheControl :: string
  upsert :: bool
  contentType :: "string option"

datatype remote_call =
    ListBuckets
  | CreateBucket string bool
  | Upload string string js_file upload_options
  | Remove string "string list"
  | Select query bool
  | Insert string "row list"
  | Update string row "(string \<times> jsval) list"
  | Delete string "(string \<times> jsval) list"

datatype effect =
    Remote remote_call
  | GetPublicUrl string string
  | ConsoleError string
  | ConsoleLog string
  | Alert string
  | Confirm string
  | WindowOpen string
  | PreventDefault

fun is_remote :: "effect \<Rightarrow> bool" where
  "is_remote (Remote c) = True"
| "is_remote e = False"

fun is_alert :: "effect \<Rightarrow> bool" where
  "is_alert (Alert m) = True"
| "is_alert e = False"

record 'v world =
  be :: backend
  ui :: 'v
  effects :: "effect list"

definition issued :: "'v world \<Rightarrow> 'v world \<Rightarrow> effect list" where
  \<comment> \<open>the effects a handler added while taking \<open>w\<close> to \<open>w'\<close>\<close>
  "issued w w' = drop (length (effects w)) (effects w')"

definition remote_calls :: "'v world \<Rightarrow> 'v world \<Rightarrow> effect list" where
  "remote_calls w w' = filter is_remote (issued w w')"


fun on_table :: "string \<Rightarrow> effect \<Rightarrow> bool" where
  \<comment> \<open>the effect is a remote call on table \<open>t\<close>\<close>
  "on_table t (Remote (Select q s)) = (q_table q = t)"
| "on_table t (Remote (Insert t' rs)) = (t' = t)"
| "on_table t (Remote (Update t' vals fs)) = (t' = t)"
| "on_table t (Remote (Delete t' fs)) = (t' = t)"
| "on_table t e = False"

definition emit :: "effect \<Rightarrow> 'v world \<Rightarrow> 'v world" where
  "emit e w = w\<lparr>effects := effects w @ [e]\<rparr>"

definition set_table :: "string \<Rightarrow> row list \<Rightarrow> 'v world \<Rightarrow> 'v world" where
  "set_table t rs w = w\<lparr>be := (be w)\<lparr>tables := (tables (be w))(t := rs)\<rparr>\<rparr>"

definition db_select :: "fault \<Rightarrow> query \<Rightarrow> 'v world \<Rightarrow> row list response \<times> 'v world" where
  "db_select f q w = (respond f (run_select (be w) q), emit (Remote (Select q False)) w)"

definition db_single :: "fault \<Rightarrow> query \<Rightarrow> 'v world \<Rightarrow> row response \<times> 'v world" where
  \<comment> \<open>\<open>.single()\<close>: an error unless exactly one row matches\<close>
  "db_single f q w =
     (let w1 = emit (Remote (Select q True)) w in
      case f of
        NoFault \<Rightarrow>
          (case run_select (be w) q of
             [r] \<Rightarrow> (Inr (Some r, None), w1)
           | _ \<Rightarrow> (Inr (None, Some (PlainObject ''JSON object requested, multiple (or no) rows returned'')), w1))
      | _ \<Rightarrow> (respond f [], w1))"

definition db_insert :: "fault \<Rightarrow> string \<Rightarrow> row list \<Rightarrow> 'v world \<Rightarrow> unit response \<times> 'v world" where
  "db_insert f t rs w =
     (let w1 = emit (Remote (Insert t rs)) w in
      case f of
        NoFault \<Rightarrow> (respond f (), set_table t (tables (be w) t @ rs) w1)
      | _ \<Rightarrow> (respond f (), w1))"

definition update_row :: "row \<Rightarrow> row \<Rightarrow> row" where
  "update_row vals r = vals @ filter (\<lambda>(c, v). c \<notin> fst ` set vals) r"

definition db_update ::
  "fault \<Rightarrow> string \<Rightarrow> row \<Rightarrow> (string \<times> jsval) list \<Rightarrow> 'v world \<Rightarrow> unit response \<times> 'v world" where
  "db_update f t vals fs w =
     (let w1 = emit (Remote (Update t vals fs)) w in
      case f of
        NoFault \<Rightarrow>
          (respond f (),
           set_table t (map (\<lambda>r. if matches fs r then update_row vals r else r) (tables (be w) t)) w1)
      | _ \<Rightarrow> (respond f (), w1))"

definition db_delete ::
  "fault \<Rightarrow> string \<Rightarrow> (string \<times> jsval) list \<Rightarrow> 'v world \<Rightarrow> unit response \<times> 'v world" where
  "db_delete f t fs w =
     (let w1 = emit (Remote (Delete t fs)) w in
      case f of
        NoFault \<Rightarrow> (respond f (), set_table t (filter (\<lambda>r. \<not> matches fs r) (tables (be w) t)) w1)
      | _ \<Rightarrow> (respond f (), w1))"

definition storage_listBuckets :: "fault \<Rightarrow> 'v world \<Rightarrow> string list response \<times> 'v world" where
  "storage_listBuckets f w = (respond f (buckets (be w)), emit (Remote ListBuckets) w)"

definition storage_createBucket ::
  "fault \<Rightarrow> string \<Rightarrow> bool \<Rightarrow> 'v world \<Rightarrow> unit response \<times> 'v world" where
  "storage_createBucket f b public w =
     (let w1 = emit (Remote (CreateBucket b public)) w in
      case f of
        NoFault \<Rightarrow>
          (if b \<in> set (buckets (be w))
           then (Inr (None, Some (ErrorInstance ''The resource already exists'')), w1)
           else (respond f (), w1\<lparr>be := (be w1)\<lparr>buckets := buckets (be w1) @ [b]\<rparr>\<rparr>))
      | _ \<Rightarrow> (respond f (), w1))"

definition storage_upload ::
  "fault \<Rightarrow> string \<Rightarrow> string \<Rightarrow> js_file \<Rightarrow> upload_options \<Rightarrow> 'v world \<Rightarrow> unit response \<times> 'v world" where
  "storage_upload f b path fl opts w =
     (let w1 = emit (Remote (Upload b path fl opts)) w in
      case f of
        NoFault \<Rightarrow>
          (if b \<notin> set (buckets (be w))
           then (Inr (None, Some (ErrorInstance ''Bucket not found'')), w1)
           else if (b, path) \<in> set (objects (be w)) \<and> \<not> upsert opts
           then (Inr (None, Some (ErrorInstance ''The resource already exists'')), w1)
           else (respond f (), w1\<lparr>be := (be w1)\<lparr>objects := List.insert (b, path) (objects (be w1))\<rparr>\<rparr>))
      | _ \<Rightarrow> (respond f (), w1))"

definition storage_remove ::
  "fault \<Rightarrow> string \<Rightarrow> string list \<Rightarrow> 'v world \<Rightarrow> unit response \<times> 'v world" where
  "storage_remove f b paths w =
     (let w1 = emit (Remote (Remove b paths)) w in
      case f of
        NoFault \<Rightarrow>
          (respond f (),
           w1\<lparr>be := (be w1)\<lparr>objects := filter (\<lambda>(b', p). \<not> (b' = b \<and> p \<in> set paths)) (objects (be w1))\<rparr>\<rparr>)
      | _ \<Rightarrow> (respond f (), w1))"

section \<open>Client profile view: state\<close>

record loading_flags =
  loading_contact :: bool
  loading_status :: bool
  loading_quotation :: bool
  loading_document :: bool

record new_document =
  nd_document_type :: string
  nd_description :: string
  nd_file :: "js_file option"

record new_contact =
  nc_name :: string
  nc_position :: string
  nc_email :: string
  nc_phone :: string

record profile_state =
  client :: "row option"
  contactPersons :: "row list"
  documents :: "row list"
  showAddContactModal :: bool
  showDocumentModal :: bool
  selectedDocument :: "row option"
  EndClientModal :: bool
  completedModal :: bool
  editContact :: "row option"
  isAssigned :: bool
  loading :: loading_flags
  newDocument :: new_document
  newContact :: new_contact

definition setClient :: "row option \<Rightarrow> profile_state world \<Rightarrow> profile_state world" where
  "setClient v w = w\<lparr>ui := (ui w)\<lparr>client := v\<rparr>\<rparr>"

definition setContactPersons :: "row list \<Rightarrow> profile_state world \<Rightarrow> profile_state world" where
  "setContactPersons v w = w\<lparr>ui := (ui w)\<lparr>contactPersons := v\<rparr>\<rparr>"

definition setDocuments :: "row list \<Rightarrow> profile_state world \<Rightarrow> profile_state world" where
  "setDocuments v w = w\<lparr>ui := (ui w)\<lparr>documents := v\<rparr>\<rparr>"

definition setShowDocumentModal :: "bool \<Rightarrow> profile_state world \<Rightarrow> profile_state world" where
  "setShowDocumentModal v w = w\<lparr>ui := (ui w)\<lparr>showDocumentModal := v\<rparr>\<rparr>"

definition SetEndClientModal :: "bool \<Rightarrow> profile_state world \<Rightarrow> profile_state world" where
  "SetEndClientModal v w = w\<lparr>ui := (ui w)\<lparr>EndClientModal := v\<rparr>\<rparr>"

definition SetcompletedModal :: "bool \<Rightarrow> profile_state world \<Rightarrow> profile_state world" where
  "SetcompletedModal v w = w\<lparr>ui := (ui w)\<lparr>completedModal := v\<rparr>\<rparr>"

definition setIsAssigned :: "bool \<Rightarrow> profile_state world \<Rightarrow> profile_state world" where
  "setIsAssigned v w = w\<lparr>ui := (ui w)\<lparr>isAssigned := v\<rparr>\<rparr>"

definition setLoading :: "loading_flags \<Rightarrow> profile_state world \<Rightarrow> profile_state world" where
  "setLoading v w = w\<lparr>ui := (ui w)\<lparr>loading := v\<rparr>\<rparr>"

definition setNewDocument :: "new_document \<Rightarrow> profile_state world \<Rightarrow> profile_state world" where
  "setNewDocument v w = w\<lparr>ui := (ui w)\<lparr>newDocument := v\<rparr>\<rparr>"

definition or_empty :: "row list option \<Rightarrow> row list" where
  \<comment> \<open>\<open>data || []\<close>\<close>
  "or_empty d = (case d of None \<Rightarrow> [] | Some rs \<Rightarrow> rs)"

section \<open>Client profile view: loading\<close>

definition quotationQuery :: "string \<Rightarrow> string option \<Rightarrow> query" where
  \<comment> \<open>the builder held in \<open>quotationQuery\<close> at the end of \<open>loadClientData\<close>\<close>
  "quotationQuery role cid =
     (let q = eq_filter ''client_id'' (param cid)
                (select_cols [''*'', ''employees(full_name, role)'',
                              ''quotation_assets(asset_id, quantity, assets(item))'']
                   (from_table ''quotations''))
      in if role \<noteq> ''admin'' \<and> role \<noteq> ''head'' then eq_filter ''status'' (Str ''approved'') q else q)"

definition clientQuery :: "string option \<Rightarrow> query" where
  "clientQuery cid = eq_filter ''id'' (param cid) (select_cols [''*''] (from_table ''clients''))"

definition contactsQuery :: "string option \<Rightarrow> query" where
  "contactsQuery cid =
     order_by ''created_at'' False
       (eq_filter ''client_id'' (param cid) (select_cols [''*''] (from_table ''contact_persons'')))"

definition documentsQuery :: "string option \<Rightarrow> query" where
  "documentsQuery cid =
     order_by ''created_at'' False
       (eq_filter ''client_id'' (param cid)
          (select_cols [''*'', ''employees(full_name)''] (from_table ''documents'')))"

definition assignmentQuery :: "string option \<Rightarrow> jsval \<Rightarrow> query" where
  "assignmentQuery cid employee =
     eq_filter ''employee_id'' employee
       (eq_filter ''client_id'' (param cid) (select_cols [''*''] (from_table ''client_assignments'')))"

definition loadClientData_body ::
  "string \<Rightarrow> string option \<Rightarrow> fault \<Rightarrow> fault \<Rightarrow> profile_state world
   \<Rightarrow> query option \<times> profile_state world" where
  \<comment> \<open>the body of \<open>loadClientData\<close>: the builder that the local \<open>quotationQuery\<close> holds when
      the \<open>try\<close> block ends (none when a call rejected before it was built), and the
      world; nothing awaits the builder\<close>
  "loadClientData_body role cid f_client f_contacts w =
     (case db_single f_client (clientQuery cid) w of
        (Inl e, w1) \<Rightarrow> (None, emit (ConsoleError ''Error loading client data:'') w1)
      | (Inr (clientData, err), w1) \<Rightarrow>
          (let w2 = setClient clientData w1 in
           case db_select f_contacts (contactsQuery cid) w2 of
             (Inl e, w3) \<Rightarrow> (None, emit (ConsoleError ''Error loading client data:'') w3)
           | (Inr (contactData, err'), w3) \<Rightarrow>
               (let w4 = setContactPersons (or_empty contactData) w3;
                    built = quotationQuery role cid
                in (Some built, w4))))"

definition loadClientData ::
  "string \<Rightarrow> string option \<Rightarrow> fault \<Rightarrow> fault \<Rightarrow> profile_state world \<Rightarrow> profile_state world" where
  "loadClientData role cid f_client f_contacts w =
     snd (loadClientData_body role cid f_client f_contacts w)"

definition loadDocuments :: "string option \<Rightarrow> fault \<Rightarrow> profile_state world \<Rightarrow> profile_state world" where
  "loadDocuments cid f w =
     (let w1 = setLoading ((loading (ui w))\<lparr>loading_document := True\<rparr>) w;
          w2 = (case db_select f (documentsQuery cid) w1 of
                  (Inl e, w') \<Rightarrow> emit (ConsoleError ''Error loading documents:'') w'
                | (Inr (documentData, Some e), w') \<Rightarrow> emit (ConsoleError ''Error loading documents:'') w'
                | (Inr (documentData, None), w') \<Rightarrow>
                    setDocuments (or_empty documentData) (emit (ConsoleLog ''Documents loaded:'') w'))
      in setLoading ((loading (ui w2))\<lparr>loading_document := False\<rparr>) w2)"

definition checkAssignment ::
  "string \<Rightarrow> user option \<Rightarrow> string option \<Rightarrow> fault \<Rightarrow> profile_state world \<Rightarrow> profile_state world" where
  "checkAssignment role u cid f w =
     (if role = ''admin'' \<or> role = ''finance.employee'' then setIsAssigned True w
      else if \<not> truthy (opt_chain u user_id) \<or> \<not> truthy (param cid) then setIsAssigned False w
      else
        (case db_single f (assignmentQuery cid (opt_chain u user_id)) w of
           (Inl e, w1) \<Rightarrow> emit (ConsoleError ''Error checking assignment:'') w1
         | (Inr (d, err), w1) \<Rightarrow> setIsAssigned (d \<noteq> None) w1))"

section \<open>Client profile view: status update\<close>

definition handleStatusUpdate ::
  "string \<Rightarrow> string \<Rightarrow> string option \<Rightarrow> fault \<Rightarrow> fault \<Rightarrow> fault
   \<Rightarrow> profile_state world \<Rightarrow> profile_state world" where
  "handleStatusUpdate newStatus role cid f_update f_client f_contacts w =
     (let l0 = loading (ui w);
          w1 = setLoading (l0\<lparr>loading_status := True\<rparr>) w;
          w2 = (case db_update f_update ''clients'' [(''status'', Str newStatus)] [(''id'', param cid)] w1 of
                  (Inl e, w') \<Rightarrow> emit (ConsoleError ''Error updating client status:'') w'
                | (Inr (d, Some e), w') \<Rightarrow> emit (ConsoleError ''Error updating client status:'') w'
                | (Inr (d, None), w') \<Rightarrow>
                    loadClientData role cid f_client f_contacts
                      (SetcompletedModal False (SetEndClientModal False w')))
      in setLoading (l0\<lparr>loading_status := False\<rparr>) w2)"

section \<open>Client profile view: documents\<close>

fun split_on :: "char \<Rightarrow> string \<Rightarrow> string list" where
  \<comment> \<open>\<open>s.split(d)\<close> for a one-character separator; never the empty list\<close>
  "split_on d [] = [[]]"
| "split_on d (c # cs) =
     (if c = d then [] # split_on d cs
      else (case split_on d cs of [] \<Rightarrow> [[c]] | x # xs \<Rightarrow> (c # x) # xs))"

definition file_ext :: "string \<Rightarrow> string" where
  \<comment> \<open>\<open>name.split('.').pop()\<close>\<close>
  "file_ext n = last (split_on CHR ''.'' n)"

definition profile_filePath :: "jsval \<Rightarrow> nat \<Rightarrow> js_file \<Rightarrow> string" where
  \<comment> \<open>\<open>${user.id}/${Date.now()}.${fileExt}\<close>\<close>
  "profile_filePath uid now fl =
     to_text uid @ ''/'' @ string_of_nat now @ ''.'' @ file_ext (file_name fl)"

definition document_row ::
  "jsval \<Rightarrow> jsval \<Rightarrow> string \<Rightarrow> string \<Rightarrow> js_file \<Rightarrow> string \<Rightarrow> string \<Rightarrow> row" where
  "document_row client_id employee_id doc_type descr fl publicUrl filePath =
     [(''client_id'', client_id),
      (''employee_id'', employee_id),
      (''document_type'', Str doc_type),
      (''description'', Str descr),
      (''file_name'', Str (file_name fl)),
      (''file_url'', Str publicUrl),
      (''file_path'', Str filePath),
      (''file_type'', Str (file_type fl)),
      (''file_size'', Num (file_size fl))]"

definition upload_store ::
  "user option \<Rightarrow> string option \<Rightarrow> nat \<Rightarrow> (string \<Rightarrow> string \<Rightarrow> string) \<Rightarrow> js_file
   \<Rightarrow> fault \<Rightarrow> fault \<Rightarrow> fault \<Rightarrow> profile_state world \<Rightarrow> profile_state world
   \<Rightarrow> js_error option \<times> profile_state world" where
  \<comment> \<open>the \<open>try\<close> block of \<open>handleUploadDocument\<close> from the upload on; \<open>w0\<close> is the render
      the handler closed over\<close>
  "upload_store u cid now getPublicUrl fl f_upload f_insert f_reload w0 w =
     (let filePath = profile_filePath (opt_chain u user_id) now fl in
      case storage_upload f_upload ''documents'' filePath fl
             \<lparr>cacheControl = ''3600'', upsert = False, contentType = None\<rparr> w of
        (Inl e, w1) \<Rightarrow> (Some e, w1)
      | (Inr (d, Some uploadErr), w1) \<Rightarrow> (Some uploadErr, w1)
      | (Inr (d, None), w1) \<Rightarrow>
          (let publicUrl = getPublicUrl ''documents'' filePath;
               w2 = emit (GetPublicUrl ''documents'' filePath) w1
           in case db_insert f_insert ''documents''
                     [document_row (param cid) (opt_chain u user_id)
                        (nd_document_type (newDocument (ui w0))) (nd_description (newDocument (ui w0)))
                        fl publicUrl filePath] w2 of
                (Inl e, w3) \<Rightarrow> (Some e, w3)
              | (Inr (d', Some docError), w3) \<Rightarrow> (Some docError, w3)
              | (Inr (d', None), w3) \<Rightarrow>
                  (None,
                   loadDocuments cid f_reload
                     (setShowDocumentModal False
                        (setNewDocument
                           \<lparr>nd_document_type = ''quotation'', nd_description = [], nd_file = None\<rparr>
                           w3)))))"

definition upload_try ::
  "user option \<Rightarrow> string option \<Rightarrow> nat \<Rightarrow> (string \<Rightarrow> string \<Rightarrow> string) \<Rightarrow> js_file
   \<Rightarrow> fault \<Rightarrow> fault \<Rightarrow> fault \<Rightarrow> fault \<Rightarrow> fault \<Rightarrow> profile_state world \<Rightarrow> profile_state world
   \<Rightarrow> js_error option \<times> profile_state world" where
  \<comment> \<open>the \<open>try\<close> block of \<open>handleUploadDocument\<close>: the value thrown, if any\<close>
  "upload_try u cid now getPublicUrl fl f_list f_create f_upload f_insert f_reload w0 w =
     (case storage_listBuckets f_list w of
        (Inl e, w1) \<Rightarrow> (Some e, w1)
      | (Inr (bucketList, err), w1) \<Rightarrow>
          (if \<not> (case bucketList of None \<Rightarrow> False | Some bs \<Rightarrow> ''documents'' \<in> set bs)
           then (case storage_createBucket f_create ''documents'' False w1 of
                   (Inl e, w2) \<Rightarrow> (Some e, w2)
                 | (Inr r, w2) \<Rightarrow>
                     upload_store u cid now getPublicUrl fl f_upload f_insert f_reload w0 w2)
           else upload_store u cid now getPublicUrl fl f_upload f_insert f_reload w0 w1))"

definition upload_alert :: "js_error \<Rightarrow> string" where
  "upload_alert e =
     (case e of
        ErrorInstance m \<Rightarrow> ''Upload failed: '' @ m
      | PlainObject m \<Rightarrow> ''Upload failed: An unknown error occurred.'')"

definition handleUploadDocument ::
  "user option \<Rightarrow> string option \<Rightarrow> nat \<Rightarrow> (string \<Rightarrow> string \<Rightarrow> string)
   \<Rightarrow> fault \<Rightarrow> fault \<Rightarrow> fault \<Rightarrow> fault \<Rightarrow> fault \<Rightarrow> profile_state world \<Rightarrow> profile_state world" where
  "handleUploadDocument u cid now getPublicUrl f_list f_create f_upload f_insert f_reload w =
     (let w0 = emit PreventDefault w in
      case nd_file (newDocument (ui w)) of
        None \<Rightarrow> w0
      | Some fl \<Rightarrow>
          if \<not> truthy (opt_chain u user_id) then w0
          else
            (let l0 = loading (ui w);
                 w1 = setLoading (l0\<lparr>loading_document := True\<rparr>) w0;
                 w2 = (case upload_try u cid now getPublicUrl fl
                              f_list f_create f_upload f_insert f_reload w w1 of
                         (Some e, w') \<Rightarrow>
                           emit (Alert (upload_alert e)) (emit (ConsoleError ''Error uploading document:'') w')
                       | (None, w') \<Rightarrow> w')
             in setLoading (l0\<lparr>loading_document := False\<rparr>) w2))"

definition delete_try ::
  "string option \<Rightarrow> string \<Rightarrow> string \<Rightarrow> fault \<Rightarrow> fault \<Rightarrow> fault \<Rightarrow> profile_state world
   \<Rightarrow> js_error option \<times> profile_state world" where
  \<comment> \<open>the \<open>try\<close> block of \<open>handleDeleteDocument\<close>: the value thrown, if any\<close>
  "delete_try cid documentId filePath f_remove f_delete f_reload w =
     (case storage_remove f_remove ''documents'' [filePath] w of
        (Inl e, w1) \<Rightarrow> (Some e, w1)
      | (Inr (d, Some storageError), w1) \<Rightarrow> (Some storageError, w1)
      | (Inr (d, None), w1) \<Rightarrow>
          (case db_delete f_delete ''documents'' [(''id'', Str documentId)] w1 of
             (Inl e, w2) \<Rightarrow> (Some e, w2)
           | (Inr (d', Some dbError), w2) \<Rightarrow> (Some dbError, w2)
           | (Inr (d', None), w2) \<Rightarrow> (None, loadDocuments cid f_reload w2)))"

definition handleDeleteDocument ::
  "bool \<Rightarrow> string option \<Rightarrow> string \<Rightarrow> string \<Rightarrow> fault \<Rightarrow> fault \<Rightarrow> fault
   \<Rightarrow> profile_state world \<Rightarrow> profile_state world" where
  \<comment> \<open>\<open>confirmed\<close> is the user's answer to the \<open>confirm\<close> dialog\<close>
  "handleDeleteDocument confirmed cid documentId filePath f_remove f_delete f_reload w =
     (let w0 = emit (Confirm ''Are you sure you want to delete this document?'') w in
      if \<not> confirmed then w0
      else
        (let l0 = loading (ui w);
             w1 = setLoading (l0\<lparr>loading_document := True\<rparr>) w0;
             w2 = (case delete_try cid documentId filePath f_remove f_delete f_reload w1 of
                     (Some e, w') \<Rightarrow> emit (ConsoleError ''Error deleting document:'') w'
                   | (None, w') \<Rightarrow> w')
         in setLoading (l0\<lparr>loading_document := False\<rparr>) w2))"

section \<open>Client profile view: sending by mail\<close>








text \<open>
  \<open>handleSendEmail\<close> reads its \<open>quotationData\<close> argument, of type \<open>any\<close>, property by
  property. Reading a property of \<open>undefined\<close> or \<open>null\<close> throws a \<open>TypeError\<close>, and so
  does calling \<open>map\<close> on a value that is not an array; nothing in the handler catches it.
\<close>

datatype js_exception = TypeError


definition and_then :: "js_exception + 'a \<Rightarrow> ('a \<Rightarrow> js_exception + 'b) \<Rightarrow> js_exception + 'b" where
  \<comment> \<open>the next statement runs only if the one before it did not throw\<close>
  "and_then r k = (case r of Inl x \<Rightarrow> Inl x | Inr v \<Rightarrow> k v)"









section \<open>Client profile view: what is rendered\<close>

record contact_card =
  card_contact :: row
  edit_control :: bool

record document_card =
  card_document :: row
  send_control :: bool
  delete_control :: bool

record profile_view =
  contact_cards :: "contact_card list"
  document_cards :: "document_card list"
  completed_action :: bool

datatype rendered = LoadingClient | ClientProfile profile_view

definition render :: "string \<Rightarrow> profile_state \<Rightarrow> rendered" where
  "render role st =
     (case client st of
        None \<Rightarrow> LoadingClient
      | Some c \<Rightarrow>
          ClientProfile
            \<lparr>contact_cards =
               map (\<lambda>contact. \<lparr>card_contact = contact, edit_control = (role = ''finance.employee'')\<rparr>)
                 (contactPersons st),
             document_cards =
               map (\<lambda>doc. \<lparr>card_document = doc,
                           send_control = (length (contactPersons st) > 0),
                           delete_control = (role = ''admin'' \<or> role = ''finance.employee'')\<rparr>)
                 (documents st),
             completed_action = (role = ''finance.employee'')\<rparr>)"

section \<open>Document upload form\<close>

record document_data =
  dd_client_id :: string
  dd_employee_id :: string
  dd_document_type :: string
  dd_description :: string
  dd_file :: "js_file option"

record upload_state =
  documentData :: document_data
  isUploading :: bool
  uploadProgress :: nat
  uploadError :: "string option"
  uploadSuccess :: bool
  clients :: "row list"
  loadingClients :: bool

definition setDocumentData :: "document_data \<Rightarrow> upload_state world \<Rightarrow> upload_state world" where
  "setDocumentData v w = w\<lparr>ui := (ui w)\<lparr>documentData := v\<rparr>\<rparr>"

definition setIsUploading :: "bool \<Rightarrow> upload_state world \<Rightarrow> upload_state world" where
  "setIsUploading v w = w\<lparr>ui := (ui w)\<lparr>isUploading := v\<rparr>\<rparr>"

definition setUploadError :: "string option \<Rightarrow> upload_state world \<Rightarrow> upload_state world" where
  "setUploadError v w = w\<lparr>ui := (ui w)\<lparr>uploadError := v\<rparr>\<rparr>"

definition setUploadSuccess :: "bool \<Rightarrow> upload_state world \<Rightarrow> upload_state world" where
  "setUploadSuccess v w = w\<lparr>ui := (ui w)\<lparr>uploadSuccess := v\<rparr>\<rparr>"

definition setClients :: "row list \<Rightarrow> upload_state world \<Rightarrow> upload_state world" where
  "setClients v w = w\<lparr>ui := (ui w)\<lparr>clients := v\<rparr>\<rparr>"

definition setLoadingClients :: "bool \<Rightarrow> upload_state world \<Rightarrow> upload_state world" where
  "setLoadingClients v w = w\<lparr>ui := (ui w)\<lparr>loadingClients := v\<rparr>\<rparr>"

definition initial_upload_state :: upload_state where
  "initial_upload_state =
     \<lparr>documentData = \<lparr>dd_client_id = [], dd_employee_id = [], dd_document_type = [],
                       dd_description = [], dd_file = None\<rparr>,
      isUploading = False, uploadProgress = 0, uploadError = None, uploadSuccess = False,
      clients = [], loadingClients = True\<rparr>"

definition clientsQuery :: query where
  "clientsQuery =
     order_by ''name'' True
       (eq_filter ''status'' (Str ''ecomplete'') (select_cols [''id'', ''name''] (from_table ''clients'')))"

definition fetchClients :: "fault \<Rightarrow> upload_state world \<Rightarrow> upload_state world" where
  "fetchClients f w =
     (let w2 = (case db_select f clientsQuery w of
                  (Inl e, w1) \<Rightarrow>
                    setUploadError (Some ''Failed to load client list'')
                      (emit (ConsoleError ''Error fetching clients:'') w1)
                | (Inr (d, Some e), w1) \<Rightarrow>
                    setUploadError (Some ''Failed to load client list'')
                      (emit (ConsoleError ''Error fetching clients:'') w1)
                | (Inr (d, None), w1) \<Rightarrow> setClients (or_empty d) w1)
      in setLoadingClients False w2)"

definition form_filePath :: "string \<Rightarrow> nat \<Rightarrow> js_file \<Rightarrow> string" where
  \<comment> \<open>\<open>documents/${client_id}_${Date.now()}.${fileExt}\<close>\<close>
  "form_filePath client_id now fl =
     ''documents/'' @ client_id @ ''_'' @ string_of_nat now @ ''.'' @ file_ext (file_name fl)"

definition submit_try ::
  "user option \<Rightarrow> nat \<Rightarrow> (string \<Rightarrow> string \<Rightarrow> string) \<Rightarrow> js_file \<Rightarrow> fault \<Rightarrow> fault
   \<Rightarrow> upload_state world \<Rightarrow> upload_state world \<Rightarrow> js_error option \<times> upload_state world" where
  \<comment> \<open>the \<open>try\<close> block of \<open>handleSubmit\<close>; \<open>w0\<close> is the render the handler closed over\<close>
  "submit_try u now getPublicUrl fl f_upload f_insert w0 w =
     (let dd = documentData (ui w0);
          filePath = form_filePath (dd_client_id dd) now fl
      in case storage_upload f_upload ''documents'' filePath fl
                \<lparr>cacheControl = ''3600'', upsert = False, contentType = Some (file_type fl)\<rparr> w of
           (Inl e, w1) \<Rightarrow> (Some e, w1)
         | (Inr (d, Some uploadErr), w1) \<Rightarrow> (Some uploadErr, w1)
         | (Inr (d, None), w1) \<Rightarrow>
             (let publicUrl = getPublicUrl ''documents'' filePath;
                  w2 = emit (GetPublicUrl ''documents'' filePath) w1
              in case db_insert f_insert ''documents''
                        [document_row (Str (dd_client_id dd))
                           (or_else (opt_chain u user_id) (Str (dd_employee_id dd)))
                           (dd_document_type dd) (dd_description dd) fl publicUrl filePath] w2 of
                   (Inl e, w3) \<Rightarrow> (Some e, w3)
                 | (Inr (d', Some dbError), w3) \<Rightarrow> (Some dbError, w3)
                 | (Inr (d', None), w3) \<Rightarrow>
                     (None,
                      setDocumentData
                        \<lparr>dd_client_id = [], dd_employee_id = [], dd_document_type = [],
                          dd_description = [], dd_file = None\<rparr>
                        (setUploadSuccess True w3))))"

definition submit_error :: "js_error \<Rightarrow> string" where
  "submit_error e = (case e of ErrorInstance m \<Rightarrow> m | PlainObject m \<Rightarrow> ''Failed to upload document'')"

definition handleSubmit ::
  "user option \<Rightarrow> nat \<Rightarrow> (string \<Rightarrow> string \<Rightarrow> string) \<Rightarrow> fault \<Rightarrow> fault
   \<Rightarrow> upload_state world \<Rightarrow> upload_state world" where
  "handleSubmit u now getPublicUrl f_upload f_insert w =
     (let w0 = emit PreventDefault w in
      case dd_file (documentData (ui w)) of
        None \<Rightarrow> setUploadError (Some ''Please select a file to upload'') w0
      | Some fl \<Rightarrow>
          (let w1 = setUploadSuccess False (setUploadError None (setIsUploading True w0));
               w2 = (case submit_try u now getPublicUrl fl f_upload f_insert w w1 of
                       (Some e, w') \<Rightarrow>
                         setUploadError (Some (submit_error e))
                           (emit (ConsoleError ''Error uploading document:'') w')
                     | (None, w') \<Rightarrow> w')
           in setIsUploading False w2))"

section \<open>Navigation shell: logout\<close>

text \<open>
  What \<open>handleLogout\<close> touches: the session store, the two persisted storages and the
  current route. The store lives in \<open>lib/store\<close>; its \<open>logout\<close> is a parameter here.
\<close>

record 'store browser =
  session_store :: 'store
  localStorage :: "string \<rightharpoonup> string"
  sessionStorage :: "string \<rightharpoonup> string"
  route :: string

definition handleLogout :: "('store \<Rightarrow> 'store) \<Rightarrow> 'store browser \<Rightarrow> 'store browser" where
  "handleLogout logout b =
     (let b1 = b\<lparr>session_store := logout (session_store b)\<rparr>;
          b2 = b1\<lparr>localStorage := Map.empty\<rparr>;
          b3 = b2\<lparr>sessionStorage := Map.empty\<rparr>
      in b3\<lparr>route := ''/login''\<rparr>)"

section \<open>Concrete inputs\<close>

text \<open>The state the profile view starts in (the initial values of its \<open>useState\<close> calls).\<close>

definition initial_profile_state :: profile_state where
  "initial_profile_state =
     \<lparr>client = None, contactPersons = [], documents = [],
      showAddContactModal = False, showDocumentModal = False, selectedDocument = None,
      EndClientModal = False, completedModal = False, editContact = None, isAssigned = False,
      loading = \<lparr>loading_contact = False, loading_status = False,
                 loading_quotation = False, loading_document = False\<rparr>,
      newDocument = \<lparr>nd_document_type = ''quotation'', nd_description = [], nd_file = None\<rparr>,
      newContact = \<lparr>nc_name = [], nc_position = [], nc_email = [], nc_phone = []\<rparr>\<rparr>"

definition example_user :: user where
  "example_user = \<lparr>user_id = Str ''e7'', full_name = Str ''Asha Rao'', email = Str ''asha@example.com''\<rparr>"

definition example_file :: js_file where
  "example_file = \<lparr>file_name = ''offer.v2.pdf'', file_type = ''application/pdf'', file_size = ''2048''\<rparr>"

definition example_document :: row where
  "example_document =
     [(''id'', Str ''d1''), (''client_id'', Str ''c1''), (''employee_id'', Str ''e7''),
      (''document_type'', Str ''contract''), (''description'', Str ''signed copy''),
      (''file_name'', Str ''contract.pdf''), (''file_path'', Str ''e7/1.pdf''),
      (''created_at'', Str ''2025-01-02'')]"

definition other_document :: row where
  "other_document =
     [(''id'', Str ''d2''), (''client_id'', Str ''c1''), (''employee_id'', Str ''e7''),
      (''document_type'', Str ''invoice''), (''description'', Str []),
      (''file_name'', Str ''invoice.pdf''), (''file_path'', Str ''e7/2.pdf''),
      (''created_at'', Str ''2025-01-03'')]"

definition example_tables :: "string \<Rightarrow> row list" where
  "example_tables =
     (\<lambda>t. [])
      (''clients'' :=
         [[(''id'', Str ''c1''), (''name'', Str ''Zenith''), (''status'', Str ''ecomplete'')],
          [(''id'', Str ''c2''), (''name'', Str ''Acme''), (''status'', Str ''completed'')],
          [(''id'', Str ''c3''), (''name'', Str ''Apex''), (''status'', Str ''ecomplete'')]],
       ''contact_persons'' :=
         [[(''id'', Str ''p1''), (''client_id'', Str ''c1''), (''name'', Str ''Jane Doe''),
           (''email'', Str ''jane@x.com''), (''created_at'', Str ''2025-01-01'')]],
       ''documents'' := [example_document, other_document],
       ''client_assignments'' := [[(''client_id'', Str ''c1''), (''employee_id'', Str ''e7'')]])"

definition example_backend :: backend where
  "example_backend =
     \<lparr>buckets = [''documents''],
      objects = [(''documents'', ''e7/1.pdf''), (''documents'', ''e7/2.pdf'')],
      tables = example_tables\<rparr>"

definition example_world :: "profile_state world" where
  "example_world = \<lparr>be = example_backend, ui = initial_profile_state, effects = []\<rparr>"

text \<open>The same backend with the assignment of employee e7 to client c1 recorded twice.\<close>

definition duplicate_world :: "profile_state world" where
  "duplicate_world =
     set_table ''client_assignments''
       [[(''client_id'', Str ''c1''), (''employee_id'', Str ''e7'')],
        [(''client_id'', Str ''c1''), (''employee_id'', Str ''e7'')]] example_world"

text \<open>The profile view with a file chosen in the upload dialog.\<close>

definition chosen_world :: "profile_state world" where
  "chosen_world =
     setNewDocument \<lparr>nd_document_type = ''contract'', nd_description = ''offer'', nd_file = Some example_file\<rparr>
       example_world"

definition example_form_world :: "upload_state world" where
  "example_form_world = \<lparr>be = example_backend, ui = initial_upload_state, effects = []\<rparr>"

definition example_quotation :: jsval where
  "example_quotation =
     Obj [(''id'', Num ''12''), (''amount'', Num ''4500.5''), (''start_date'', Str ''2025-01-01''),
          (''end_date'', Str ''2025-02-01''), (''description'', Str ''two cranes''),
          (''quotation_assets'',
             Arr [Obj [(''asset_id'', Str ''a1''), (''quantity'', Num ''2''),
                       (''assets'', Obj [(''item'', Str ''crane'')])]])]"


text \<open>
  What a call makes the code throw: \<open>rejected\<close> when only the promise's rejection
  counts (the result's \<open>error\<close> is not looked at), \<open>thrown_by\<close> when the code also
  rethrows the \<open>error\<close> of the result.
\<close>

fun rejected :: "fault \<Rightarrow> js_error option" where
  "rejected (Throws e) = Some e"
| "rejected f = None"


text \<open>The profile view after client c1 of the example backend has been loaded.\<close>

definition loaded_profile_state :: profile_state where
  "loaded_profile_state =
     initial_profile_state
       \<lparr>client := Some [(''id'', Str ''c1''), (''name'', Str ''Zenith''), (''status'', Str ''ecomplete'')],
        contactPersons := [[(''id'', Str ''p1''), (''client_id'', Str ''c1''), (''name'', Str ''Jane Doe''),
                            (''email'', Str ''jane@x.com''), (''created_at'', Str ''2025-01-01'')]],
        documents := [other_document, example_document]\<rparr>"

section \<open>Theorems\<close>

subsection \<open>Unfolding sets and facts about the backend\<close>

lemmas prim_defs = emit_def set_table_def db_select_def db_single_def db_insert_def db_update_def
  db_delete_def storage_listBuckets_def storage_createBucket_def storage_upload_def storage_remove_def

lemmas setter_defs = setClient_def setContactPersons_def setDocuments_def setShowDocumentModal_def
  SetEndClientModal_def SetcompletedModal_def setIsAssigned_def setLoading_def setNewDocument_def

lemmas form_setter_defs = setDocumentData_def setIsUploading_def setUploadError_def
  setUploadSuccess_def setClients_def setLoadingClients_def

lemmas example_defs = example_world_def example_backend_def example_tables_def
  initial_profile_state_def example_user_def example_file_def example_document_def
  other_document_def duplicate_world_def chosen_world_def example_form_world_def
  initial_upload_state_def loaded_profile_state_def example_quotation_def

lemma q_table_simps [simp]:
  "q_table (clientQuery cid) = ''clients''"
  "q_table (contactsQuery cid) = ''contact_persons''"
  "q_table (documentsQuery cid) = ''documents''"
  "q_table (assignmentQuery cid e) = ''client_assignments''"
  by (simp_all add: clientQuery_def contactsQuery_def documentsQuery_def assignmentQuery_def
        eq_filter_def select_cols_def from_table_def order_by_def)

lemma clientsQuery_simps [simp]:
  "q_table clientsQuery = ''clients''"
  "q_filters clientsQuery = [(''status'', Str ''ecomplete'')]"
  "q_order clientsQuery = Some (''name'', True)"
  "q_columns clientsQuery = [''id'', ''name'']"
  by (simp_all add: clientsQuery_def eq_filter_def select_cols_def from_table_def order_by_def)

lemma documentsQuery_star [simp]: "''*'' \<in> set (q_columns (documentsQuery cid))"
  by (simp add: documentsQuery_def eq_filter_def select_cols_def from_table_def order_by_def)

lemma project_star [simp]: "map (project [''*'']) rs = rs"
  by (induction rs) (simp_all add: project_def)

lemma set_sort_rows [simp]: "set (sort_rows ord rs) = set rs"
  by (simp add: sort_rows_def Let_def split: option.splits prod.splits)

lemma run_select_other_table:
  "q_table q \<noteq> t \<Longrightarrow> run_select (b\<lparr>tables := (tables b)(t := rs)\<rparr>) q = run_select b q"
  by (simp add: run_select_def matching_rows_def)

lemma set_run_select_star:
  "''*'' \<in> set (q_columns q) \<Longrightarrow> set (run_select b q) \<subseteq> set (tables b (q_table q))"
  by (auto simp: run_select_def matching_rows_def project_def)

lemma run_select_assignment:
  "run_select b (assignmentQuery cid e) =
     filter (matches [(''client_id'', param cid), (''employee_id'', e)]) (tables b ''client_assignments'')"
  by (simp add: run_select_def matching_rows_def assignmentQuery_def eq_filter_def select_cols_def
        from_table_def sort_rows_def)

subsection \<open>Loading\<close>

lemma loadDocuments_effects:
  "effects (loadDocuments cid f w) =
     effects w @ Remote (Select (documentsQuery cid) False) #
       (if f = NoFault then [ConsoleLog ''Documents loaded:'']
        else [ConsoleError ''Error loading documents:''])"
  by (cases f) (simp_all add: loadDocuments_def prim_defs setter_defs Let_def or_empty_def)

lemma loadDocuments_be [simp]: "be (loadDocuments cid f w) = be w"
  by (cases f) (simp_all add: loadDocuments_def prim_defs setter_defs Let_def or_empty_def)

lemma loadDocuments_documents:
  "documents (ui (loadDocuments cid f w)) =
     (if f = NoFault then run_select (be w) (documentsQuery cid) else documents (ui w))"
  by (cases f) (simp_all add: loadDocuments_def prim_defs setter_defs Let_def or_empty_def)

lemma loadClientData_ui:
  "ui (loadClientData role cid f1 f2 w) =
     (ui w)\<lparr>client := client (ui (loadClientData role cid f1 f2 w)),
            contactPersons := contactPersons (ui (loadClientData role cid f1 f2 w))\<rparr>"
  by (cases f1; cases f2)
     (simp_all add: loadClientData_def loadClientData_body_def prim_defs setter_defs Let_def split: list.splits)

lemma loadClientData_be [simp]: "be (loadClientData role cid f1 f2 w) = be w"
  by (cases f1; cases f2)
     (simp_all add: loadClientData_def loadClientData_body_def prim_defs setter_defs Let_def split: list.splits)

lemma loadClientData_calls:
  "remote_calls w (loadClientData role cid f1 f2 w) =
     (case f1 of
        Throws e \<Rightarrow> [Remote (Select (clientQuery cid) True)]
      | _ \<Rightarrow> [Remote (Select (clientQuery cid) True), Remote (Select (contactsQuery cid) False)])"
  by (cases f1; cases f2)
     (simp_all add: loadClientData_def loadClientData_body_def prim_defs setter_defs remote_calls_def issued_def Let_def
        split: list.splits)

lemma loadClientData_quotations:
  "ui (loadClientData role cid f1 f2 (set_table ''quotations'' qs w)) =
   ui (loadClientData role cid f1 f2 w)"
  by (cases f1; cases f2)
     (simp_all add: loadClientData_def loadClientData_body_def prim_defs setter_defs Let_def run_select_other_table
        split: list.splits)

lemma loadClientData_role:
  "loadClientData role' cid f1 f2 w = loadClientData role cid f1 f2 w"
  by (simp add: loadClientData_def loadClientData_body_def Let_def split: prod.splits sum.splits)

subsection \<open>Deleting a document\<close>

lemma delete_calls:
  "remote_calls w (handleDeleteDocument confirmed cid documentId filePath f1 f2 f3 w) =
   (if \<not> confirmed then []
    else if f1 \<noteq> NoFault then [Remote (Remove ''documents'' [filePath])]
    else if f2 \<noteq> NoFault
      then [Remote (Remove ''documents'' [filePath]),
            Remote (Delete ''documents'' [(''id'', Str documentId)])]
    else [Remote (Remove ''documents'' [filePath]),
          Remote (Delete ''documents'' [(''id'', Str documentId)]),
          Remote (Select (documentsQuery cid) False)])"
  by (cases f1; cases f2)
     (simp_all add: handleDeleteDocument_def delete_try_def prim_defs setter_defs remote_calls_def
        issued_def Let_def loadDocuments_effects)

lemma delete_no_alert:
  "\<not> list_ex is_alert (issued w (handleDeleteDocument confirmed cid documentId filePath f1 f2 f3 w))"
  by (cases f1; cases f2)
     (simp_all add: handleDeleteDocument_def delete_try_def prim_defs setter_defs issued_def
        Let_def loadDocuments_effects)

lemma delete_logged:
  "(ConsoleError ''Error deleting document:''
      \<in> set (issued w (handleDeleteDocument confirmed cid documentId filePath f1 f2 f3 w)))
   = (confirmed \<and> (f1 \<noteq> NoFault \<or> f2 \<noteq> NoFault))"
  by (cases f1; cases f2)
     (simp_all add: handleDeleteDocument_def delete_try_def prim_defs setter_defs issued_def
        Let_def loadDocuments_effects)

lemma delete_reload_logged:
  "confirmed \<and> f1 = NoFault \<and> f2 = NoFault \<and> f3 \<noteq> NoFault \<Longrightarrow>
   ConsoleError ''Error loading documents:''
      \<in> set (issued w (handleDeleteDocument confirmed cid documentId filePath f1 f2 f3 w))"
  by (simp add: handleDeleteDocument_def delete_try_def prim_defs setter_defs issued_def
        Let_def loadDocuments_effects)

lemma delete_aborted:
  "\<not> confirmed \<or> f1 \<noteq> NoFault \<Longrightarrow>
   be (handleDeleteDocument confirmed cid documentId filePath f1 f2 f3 w) = be w"
  by (cases f1; cases f2)
     (auto simp add: handleDeleteDocument_def delete_try_def prim_defs setter_defs Let_def)

lemma delete_success_be:
  "be (handleDeleteDocument True cid documentId filePath NoFault NoFault f3 w) =
     (be w)\<lparr>objects := filter (\<lambda>(b, p). \<not> (b = ''documents'' \<and> p \<in> set [filePath])) (objects (be w)),
            tables := (tables (be w))(''documents'' :=
               filter (\<lambda>r. \<not> matches [(''id'', Str documentId)] r) (tables (be w) ''documents''))\<rparr>"
  by (simp add: handleDeleteDocument_def delete_try_def prim_defs setter_defs Let_def)

lemma delete_success_documents:
  "documents (ui (handleDeleteDocument True cid documentId filePath NoFault NoFault NoFault w)) =
     run_select (be (handleDeleteDocument True cid documentId filePath NoFault NoFault NoFault w))
       (documentsQuery cid)"
  by (simp add: handleDeleteDocument_def delete_try_def prim_defs setter_defs Let_def
        loadDocuments_documents)

lemma delete_success_gone:
  assumes "w' = handleDeleteDocument True cid documentId filePath NoFault NoFault NoFault w"
  shows "list_all (\<lambda>r. cell r ''id'' \<noteq> Str documentId) (tables (be w') ''documents'')"
    and "list_all (\<lambda>r. cell r ''id'' \<noteq> Str documentId) (documents (ui w'))"
    and "(''documents'', filePath) \<notin> set (objects (be w'))"
proof -
  show stored: "list_all (\<lambda>r. cell r ''id'' \<noteq> Str documentId) (tables (be w') ''documents'')"
    unfolding assms delete_success_be by (auto simp: list_all_iff)
  have "set (documents (ui w')) \<subseteq> set (tables (be w') ''documents'')"
    unfolding assms delete_success_documents
    using set_run_select_star [of "documentsQuery cid"] by simp
  with stored show "list_all (\<lambda>r. cell r ''id'' \<noteq> Str documentId) (documents (ui w'))"
    by (auto simp: list_all_iff)
  show "(''documents'', filePath) \<notin> set (objects (be w'))"
    unfolding assms delete_success_be by simp
qed

subsection \<open>The claims\<close>

text \<open>
  C1. Deleting a document from the client profile view removes the stored object before
  it deletes the database row: the remote calls are the storage removal, then the row
  deletion, then the reload of the document list, cut short at the first call that
  fails. If the storage removal fails the row deletion is not issued and the backend
  is left as it was. No outcome raises an alert; a failed removal or deletion is logged
  to the console, and so is a failed reload. When the user confirms and the removal, the deletion and the reload
  all succeed, the document list is the reloaded one, no row of it or of the table
  carries the deleted identifier, and the object is gone from the bucket.
\<close>

theorem handleDeleteDocument_storage_then_row:
  "(let w' = handleDeleteDocument confirmed cid documentId filePath f_remove f_delete f_reload w in
      remote_calls w w' =
        (if \<not> confirmed then []
         else if f_remove \<noteq> NoFault then [Remote (Remove ''documents'' [filePath])]
         else if f_delete \<noteq> NoFault
           then [Remote (Remove ''documents'' [filePath]),
                 Remote (Delete ''documents'' [(''id'', Str documentId)])]
         else [Remote (Remove ''documents'' [filePath]),
               Remote (Delete ''documents'' [(''id'', Str documentId)]),
               Remote (Select (documentsQuery cid) False)])
    \<and> (f_remove \<noteq> NoFault \<longrightarrow> be w' = be w)
    \<and> \<not> list_ex is_alert (issued w w')
    \<and> (ConsoleError ''Error deleting document:'' \<in> set (issued w w'))
        = (confirmed \<and> (f_remove \<noteq> NoFault \<or> f_delete \<noteq> NoFault))
    \<and> (confirmed \<and> f_remove = NoFault \<and> f_delete = NoFault \<and> f_reload \<noteq> NoFault \<longrightarrow>
          ConsoleError ''Error loading documents:'' \<in> set (issued w w'))
    \<and> (confirmed \<and> f_remove = NoFault \<and> f_delete = NoFault \<and> f_reload = NoFault \<longrightarrow>
          documents (ui w') = run_select (be w') (documentsQuery cid)
        \<and> list_all (\<lambda>r. cell r ''id'' \<noteq> Str documentId) (documents (ui w'))
        \<and> list_all (\<lambda>r. cell r ''id'' \<noteq> Str documentId) (tables (be w') ''documents'')
        \<and> (''documents'', filePath) \<notin> set (objects (be w'))))"
  unfolding Let_def
proof (intro conjI impI)
  show "remote_calls w (handleDeleteDocument confirmed cid documentId filePath f_remove f_delete f_reload w) =
        (if \<not> confirmed then []
         else if f_remove \<noteq> NoFault then [Remote (Remove ''documents'' [filePath])]
         else if f_delete \<noteq> NoFault
           then [Remote (Remove ''documents'' [filePath]),
                 Remote (Delete ''documents'' [(''id'', Str documentId)])]
         else [Remote (Remove ''documents'' [filePath]),
               Remote (Delete ''documents'' [(''id'', Str documentId)]),
               Remote (Select (documentsQuery cid) False)])"
    by (rule delete_calls)
  show "be (handleDeleteDocument confirmed cid documentId filePath f_remove f_delete f_reload w) = be w"
    if "f_remove \<noteq> NoFault"
    using that by (simp add: delete_aborted)
  show "\<not> list_ex is_alert
          (issued w (handleDeleteDocument confirmed cid documentId filePath f_remove f_delete f_reload w))"
    by (rule delete_no_alert)
  show "(ConsoleError ''Error deleting document:''
          \<in> set (issued w (handleDeleteDocument confirmed cid documentId filePath f_remove f_delete f_reload w)))
        = (confirmed \<and> (f_remove \<noteq> NoFault \<or> f_delete \<noteq> NoFault))"
    by (rule delete_logged)
  show "ConsoleError ''Error loading documents:''
          \<in> set (issued w (handleDeleteDocument confirmed cid documentId filePath f_remove f_delete f_reload w))"
    if "confirmed \<and> f_remove = NoFault \<and> f_delete = NoFault \<and> f_reload \<noteq> NoFault"
    using that by (rule delete_reload_logged)
next
  assume ok: "confirmed \<and> f_remove = NoFault \<and> f_delete = NoFault \<and> f_reload = NoFault"
  let ?w' = "handleDeleteDocument confirmed cid documentId filePath f_remove f_delete f_reload w"
  have eq: "?w' = handleDeleteDocument True cid documentId filePath NoFault NoFault NoFault w"
    using ok by simp
  show "documents (ui ?w') = run_select (be ?w') (documentsQuery cid)"
    unfolding eq by (rule delete_success_documents)
  show "list_all (\<lambda>r. cell r ''id'' \<noteq> Str documentId) (documents (ui ?w'))"
    by (rule delete_success_gone(2) [OF eq])
  show "list_all (\<lambda>r. cell r ''id'' \<noteq> Str documentId) (tables (be ?w') ''documents'')"
    by (rule delete_success_gone(1) [OF eq])
  show "(''documents'', filePath) \<notin> set (objects (be ?w'))"
    by (rule delete_success_gone(3) [OF eq])
qed

theorem handleDeleteDocument_storage_then_row_witness:
  "documents (ui (handleDeleteDocument True (Some ''c1'') ''d1'' ''e7/1.pdf'' NoFault NoFault NoFault example_world))
     = run_select (be (handleDeleteDocument True (Some ''c1'') ''d1'' ''e7/1.pdf'' NoFault NoFault NoFault example_world))
         (documentsQuery (Some ''c1''))
   \<and> (''documents'', ''e7/1.pdf'') \<notin> set (objects
         (be (handleDeleteDocument True (Some ''c1'') ''d1'' ''e7/1.pdf'' NoFault NoFault NoFault example_world)))
   \<and> be (handleDeleteDocument True (Some ''c1'') ''d1'' ''e7/1.pdf'' (Fails (ErrorInstance ''denied'')) NoFault NoFault example_world)
       = be example_world
   \<and> remote_calls example_world
        (handleDeleteDocument True (Some ''c1'') ''d1'' ''e7/1.pdf'' (Fails (ErrorInstance ''denied'')) NoFault NoFault example_world)
       = [Remote (Remove ''documents'' [''e7/1.pdf''])]"
  using handleDeleteDocument_storage_then_row
          [where confirmed = True and cid = "Some ''c1''" and documentId = "''d1''"
             and filePath = "''e7/1.pdf''" and f_remove = NoFault and f_delete = NoFault
             and f_reload = NoFault and w = example_world]
        handleDeleteDocument_storage_then_row
          [where confirmed = True and cid = "Some ''c1''" and documentId = "''d1''"
             and filePath = "''e7/1.pdf''" and f_remove = "Fails (ErrorInstance ''denied'')"
             and f_delete = NoFault and f_reload = NoFault and w = example_world]
  by (simp add: Let_def)

subsection \<open>Uploading a document from the profile view\<close>















subsection \<open>The assignment check\<close>

text \<open>
  C3. The assignment check sets the flag to assigned without any remote call when the
  role is "admin" or "finance.employee", and to not assigned without any remote call
  when the session user's identifier or the client identifier is missing. For every
  other role it issues one single-row lookup on \<open>client_assignments\<close> for the client
  and the session user; the flag is then set to assigned exactly when exactly one row
  matches (the single-row fetch fails on no row and on several rows), to not assigned
  when the lookup resolves with an error, and is left as it was when the lookup rejects.
\<close>

theorem checkAssignment_single_row:
  "isAssigned (ui (checkAssignment role u cid f w)) =
     (if role = ''admin'' \<or> role = ''finance.employee'' then True
      else if \<not> truthy (opt_chain u user_id) \<or> \<not> truthy (param cid) then False
      else (case f of
              NoFault \<Rightarrow>
                length (filter (matches [(''client_id'', param cid), (''employee_id'', opt_chain u user_id)])
                          (tables (be w) ''client_assignments'')) = 1
            | Fails e \<Rightarrow> False
            | Throws e \<Rightarrow> isAssigned (ui w)))
   \<and> remote_calls w (checkAssignment role u cid f w) =
       (if role = ''admin'' \<or> role = ''finance.employee''
           \<or> \<not> truthy (opt_chain u user_id) \<or> \<not> truthy (param cid) then []
        else [Remote (Select (assignmentQuery cid (opt_chain u user_id)) True)])"
  by (cases f)
     (auto simp: checkAssignment_def prim_defs setter_defs remote_calls_def issued_def Let_def
        run_select_assignment split: list.splits)

theorem checkAssignment_single_row_witness:
  "isAssigned (ui (checkAssignment ''employee'' (Some example_user) (Some ''c1'') NoFault example_world))
   \<and> remote_calls example_world
        (checkAssignment ''employee'' (Some example_user) (Some ''c1'') NoFault example_world)
       = [Remote (Select (assignmentQuery (Some ''c1'') (Str ''e7'')) True)]
   \<and> isAssigned (ui (checkAssignment ''admin'' None None NoFault example_world))
   \<and> remote_calls example_world (checkAssignment ''admin'' None None NoFault example_world) = []"
  using checkAssignment_single_row
          [of "''employee''" "Some example_user" "Some ''c1''" NoFault example_world]
        checkAssignment_single_row [of "''admin''" None None NoFault example_world]
  by (simp add: example_defs opt_chain_def param_def cell_def)

text \<open>
  The claim as stated fails: for the role "employee", rows for the client and the
  session user exist in \<open>client_assignments\<close> (the assignment is recorded twice), the
  lookup goes through, and the flag is set to not assigned.
\<close>

theorem checkAssignment_duplicate_rows_counterexample:
  "filter (matches [(''client_id'', Str ''c1''), (''employee_id'', Str ''e7'')])
      (tables (be duplicate_world) ''client_assignments'') \<noteq> []
   \<and> \<not> isAssigned (ui (checkAssignment ''employee'' (Some example_user) (Some ''c1'') NoFault
                          duplicate_world))"
  by (simp add: checkAssignment_def prim_defs setter_defs example_defs Let_def opt_chain_def
        param_def run_select_assignment cell_def)

subsection \<open>Submitting without a file\<close>

text \<open>
  C4. A document upload submitted with no file selected is rejected before any remote
  call. In the standalone upload form the handler sets the upload error to
  "Please select a file to upload" and changes nothing else. In the client profile
  view the handler returns at once: it makes no remote call, changes no state and shows
  no message.
\<close>

theorem no_file_rejected_before_remote_call:
  "(dd_file (documentData (ui w)) = None \<longrightarrow>
      handleSubmit u now getPublicUrl f_upload f_insert w
        = setUploadError (Some ''Please select a file to upload'') (emit PreventDefault w)
      \<and> remote_calls w (handleSubmit u now getPublicUrl f_upload f_insert w) = []
      \<and> uploadError (ui (handleSubmit u now getPublicUrl f_upload f_insert w))
          = Some ''Please select a file to upload''
      \<and> be (handleSubmit u now getPublicUrl f_upload f_insert w) = be w)
   \<and> (nd_file (newDocument (ui pw)) = None \<longrightarrow>
      handleUploadDocument u cid now getPublicUrl f_list f_create f_upload f_insert f_reload pw
        = emit PreventDefault pw
      \<and> remote_calls pw
          (handleUploadDocument u cid now getPublicUrl f_list f_create f_upload f_insert f_reload pw) = [])"
  by (simp add: handleSubmit_def handleUploadDocument_def Let_def form_setter_defs emit_def
        remote_calls_def issued_def)

theorem no_file_rejected_before_remote_call_witness:
  "uploadError (ui (handleSubmit (Some example_user) 17 (@) NoFault NoFault example_form_world))
     = Some ''Please select a file to upload''
   \<and> remote_calls example_form_world
        (handleSubmit (Some example_user) 17 (@) NoFault NoFault example_form_world) = []
   \<and> remote_calls example_world
        (handleUploadDocument (Some example_user) (Some ''c1'') 17 (@)
           NoFault NoFault NoFault NoFault NoFault example_world) = []"
  using no_file_rejected_before_remote_call
          [where w = example_form_world and pw = example_world and u = "Some example_user"
             and now = 17 and getPublicUrl = "(@)" and f_upload = NoFault and f_insert = NoFault
             and cid = "Some ''c1''" and f_list = NoFault and f_create = NoFault and f_reload = NoFault]
  by (simp add: example_defs form_setter_defs emit_def remote_calls_def issued_def)

text \<open>
  The claim as stated fails in the client profile view: submitted with no file, its
  handler leaves the view state as it was and its only effect is to cancel the form
  event, so no upload error is shown.
\<close>

theorem handleUploadDocument_no_file_silent_counterexample:
  "nd_file (newDocument (ui example_world)) = None
   \<and> effects (handleUploadDocument (Some example_user) (Some ''c1'') 17 (@)
                 NoFault NoFault NoFault NoFault NoFault example_world) = [PreventDefault]
   \<and> ui (handleUploadDocument (Some example_user) (Some ''c1'') 17 (@)
            NoFault NoFault NoFault NoFault NoFault example_world) = ui example_world"
  by (simp add: handleUploadDocument_def Let_def emit_def example_defs)

subsection \<open>The quotation query\<close>

lemma quotationQuery_status_constraint:
  "((''status'', Str ''approved'') \<in> set (q_filters (quotationQuery role cid)))
     = (role \<noteq> ''admin'' \<and> role \<noteq> ''head'')
   \<and> (''status'' \<in> fst ` set (q_filters (quotationQuery role cid)))
     = (role \<noteq> ''admin'' \<and> role \<noteq> ''head'')
   \<and> q_table (quotationQuery role cid) = ''quotations''
   \<and> (''client_id'', param cid) \<in> set (q_filters (quotationQuery role cid))"
  by (auto simp: quotationQuery_def eq_filter_def select_cols_def from_table_def Let_def)

lemma loadClientData_body_built:
  "fst (loadClientData_body role cid f_client f_contacts w) =
     (if rejected f_client = None \<and> rejected f_contacts = None
      then Some (quotationQuery role cid) else None)"
  by (cases f_client; cases f_contacts)
     (simp_all add: loadClientData_body_def prim_defs setter_defs Let_def split: list.splits)

lemma loadClientData_body_effects:
  "filter (on_table ''quotations'') (issued w (snd (loadClientData_body role cid f_client f_contacts w))) = []"
  by (cases f_client; cases f_contacts)
     (simp_all add: loadClientData_body_def prim_defs setter_defs issued_def Let_def split: list.splits)

text \<open>
  C5. Loading the client profile issues no quotation query: it builds one and never
  executes it, and no remote call on the table \<open>quotations\<close> is made. The query it
  builds (once the client fetch and the contacts select have not rejected) is on the
  table \<open>quotations\<close>, filtered on the client, and carries the constraint
  status = "approved" exactly when the role is neither "admin" nor "head"; for the
  roles "admin" and "head" it carries no constraint on the status at all.
\<close>

theorem loadClientData_builds_quotation_query:
  "(case loadClientData_body role cid f_client f_contacts w of
      (built, w') \<Rightarrow>
        filter (on_table ''quotations'') (issued w w') = []
      \<and> (built \<noteq> None) = (rejected f_client = None \<and> rejected f_contacts = None)
      \<and> (case built of
            None \<Rightarrow> True
          | Some q \<Rightarrow>
              q_table q = ''quotations''
            \<and> (''client_id'', param cid) \<in> set (q_filters q)
            \<and> ((''status'', Str ''approved'') \<in> set (q_filters q))
                = (role \<noteq> ''admin'' \<and> role \<noteq> ''head'')
            \<and> (''status'' \<in> fst ` set (q_filters q)) = (role \<noteq> ''admin'' \<and> role \<noteq> ''head'')))"
proof -
  obtain built w' where run: "loadClientData_body role cid f_client f_contacts w = (built, w')"
    by (cases "loadClientData_body role cid f_client f_contacts w")
  have built: "built = (if rejected f_client = None \<and> rejected f_contacts = None
                        then Some (quotationQuery role cid) else None)"
    using loadClientData_body_built [of role cid f_client f_contacts w] run by simp
  have quiet: "filter (on_table ''quotations'') (issued w w') = []"
    using loadClientData_body_effects [of w role cid f_client f_contacts] run by simp
  show ?thesis
    unfolding run using built quiet quotationQuery_status_constraint [of role cid]
    by (simp split: option.splits)
qed

theorem loadClientData_builds_quotation_query_witness:
  "fst (loadClientData_body ''employee'' (Some ''c1'') NoFault NoFault example_world) =
     Some (quotationQuery ''employee'' (Some ''c1''))
   \<and> q_filters (quotationQuery ''employee'' (Some ''c1''))
       = [(''client_id'', Str ''c1''), (''status'', Str ''approved'')]
   \<and> fst (loadClientData_body ''head'' (Some ''c1'') NoFault NoFault example_world) =
       Some (quotationQuery ''head'' (Some ''c1''))
   \<and> q_filters (quotationQuery ''head'' (Some ''c1'')) = [(''client_id'', Str ''c1'')]
   \<and> filter (on_table ''quotations'')
        (issued example_world (snd (loadClientData_body ''employee'' (Some ''c1'') NoFault NoFault example_world)))
       = []"
proof -
  have employee: "fst (loadClientData_body ''employee'' (Some ''c1'') NoFault NoFault example_world) =
       Some (quotationQuery ''employee'' (Some ''c1''))"
    by (simp add: loadClientData_body_built)
  have head: "fst (loadClientData_body ''head'' (Some ''c1'') NoFault NoFault example_world) =
       Some (quotationQuery ''head'' (Some ''c1''))"
    by (simp add: loadClientData_body_built)
  have filters:
    "q_filters (quotationQuery ''employee'' (Some ''c1''))
       = [(''client_id'', Str ''c1''), (''status'', Str ''approved'')]"
    "q_filters (quotationQuery ''head'' (Some ''c1'')) = [(''client_id'', Str ''c1'')]"
    by (simp_all add: quotationQuery_def eq_filter_def select_cols_def from_table_def Let_def param_def)
  show ?thesis
    using loadClientData_builds_quotation_query
            [where role = "''employee''" and cid = "Some ''c1''" and f_client = NoFault
               and f_contacts = NoFault and w = example_world]
          employee head filters
    by (simp split: prod.splits)
qed

text \<open>
  The claim as stated fails: for the role "employee", loading client c1 with every
  call succeeding makes two remote calls, the client fetch and the contacts select,
  and none on the table \<open>quotations\<close>: no quotation query is issued.
\<close>

theorem loadClientData_no_quotation_query_counterexample:
  "effects (loadClientData ''employee'' (Some ''c1'') NoFault NoFault example_world) =
     [Remote (Select (clientQuery (Some ''c1'')) True),
      Remote (Select (contactsQuery (Some ''c1'')) False)]
   \<and> filter (on_table ''quotations'')
        (effects (loadClientData ''employee'' (Some ''c1'') NoFault NoFault example_world)) = []"
  by (simp add: loadClientData_def loadClientData_body_def prim_defs setter_defs Let_def
        example_world_def split: list.splits)

subsection \<open>The client list of the upload form\<close>

lemma listed_set:
  "set (matching_rows b clientsQuery) =
     {r \<in> set (tables b ''clients''). cell r ''status'' = Str ''ecomplete''}"
  by (auto simp: matching_rows_def)

lemma listed_sorted: "sorted (map (\<lambda>r. to_text (cell r ''name'')) (matching_rows b clientsQuery))"
  by (simp add: matching_rows_def sort_rows_def)

lemma fetchClients_clients:
  "clients (ui (fetchClients f w)) =
     (if f = NoFault then map (project [''id'', ''name'']) (matching_rows (be w) clientsQuery)
      else clients (ui w))"
  by (cases f)
     (simp_all add: fetchClients_def prim_defs form_setter_defs Let_def or_empty_def run_select_def)

lemma status_update_clients:
  "tables (be (handleStatusUpdate newStatus role cid NoFault f_client f_contacts w)) ''clients'' =
     map (\<lambda>r. if matches [(''id'', param cid)] r then update_row [(''status'', Str newStatus)] r else r)
       (tables (be w) ''clients'')"
  by (simp add: handleStatusUpdate_def prim_defs setter_defs Let_def)

lemma cell_update_row: "cell (update_row [(c, v)] r) c = v"
  by (simp add: update_row_def cell_def)

lemma completed_client_not_listed:
  assumes "r \<in> set (matching_rows
                      (be (handleStatusUpdate ''completed'' role (Some c) NoFault f_client f_contacts w))
                      clientsQuery)"
  shows "cell r ''id'' \<noteq> Str c"
proof -
  from assms obtain r0 where r0: "r0 \<in> set (tables (be w) ''clients'')"
    and r: "r = (if matches [(''id'', Str c)] r0 then update_row [(''status'', Str ''completed'')] r0 else r0)"
    and st: "cell r ''status'' = Str ''ecomplete''"
    unfolding listed_set status_update_clients by (auto simp: param_def)
  show ?thesis
  proof (cases "matches [(''id'', Str c)] r0")
    case True
    with r have "cell r ''status'' = Str ''completed''" by (simp add: cell_update_row)
    with st show ?thesis by simp
  next
    case False
    with r show ?thesis by simp
  qed
qed

text \<open>
  C6. The standalone document upload form loads its client list with one fixed filter,
  status = "ecomplete", ordered by name ascending: when the fetch succeeds the list is
  the \<open>id\<close> and \<open>name\<close> of exactly the clients rows with that status, sorted by name, and
  when it fails the list is left as it was. A row whose status is "completed" is not
  among the rows listed; in particular, after the profile view's status update has
  written "completed" for a client, no listed row carries that client's identifier.
\<close>

theorem fetchClients_eligible_only:
  "(let listed = matching_rows (be w) clientsQuery in
      q_filters clientsQuery = [(''status'', Str ''ecomplete'')]
    \<and> q_order clientsQuery = Some (''name'', True)
    \<and> clients (ui (fetchClients f w)) =
        (if f = NoFault then map (project [''id'', ''name'']) listed else clients (ui w))
    \<and> set listed = {r \<in> set (tables (be w) ''clients''). cell r ''status'' = Str ''ecomplete''}
    \<and> sorted (map (\<lambda>r. to_text (cell r ''name'')) listed)
    \<and> (cell r ''status'' = Str ''completed'' \<longrightarrow> r \<notin> set listed)
    \<and> (r \<in> set (matching_rows
                    (be (handleStatusUpdate ''completed'' role (Some c) NoFault f_client f_contacts pw))
                    clientsQuery)
         \<longrightarrow> cell r ''id'' \<noteq> Str c))"
  unfolding Let_def
  using completed_client_not_listed [of r role c f_client f_contacts pw]
  by (simp add: fetchClients_clients listed_sorted listed_set)

theorem fetchClients_eligible_only_witness:
  "clients (ui (fetchClients NoFault example_form_world)) =
     [[(''id'', Str ''c3''), (''name'', Str ''Apex'')], [(''id'', Str ''c1''), (''name'', Str ''Zenith'')]]
   \<and> [(''id'', Str ''c2''), (''name'', Str ''Acme''), (''status'', Str ''completed'')]
       \<notin> set (matching_rows (be example_form_world) clientsQuery)"
  using fetchClients_eligible_only
          [where f = NoFault and w = example_form_world
             and r = "[(''id'', Str ''c2''), (''name'', Str ''Acme''), (''status'', Str ''completed'')]"]
  by (simp add: Let_def example_defs matching_rows_def sort_rows_def project_def cell_def)

subsection \<open>Logout\<close>

text \<open>
  C7. For every prior state of the browser, the logout action applies the session
  store's logout to the store, leaves local persisted storage and session persisted
  storage empty, and ends on the login route.
\<close>

theorem handleLogout_clears_and_navigates:
  "session_store (handleLogout logout b) = logout (session_store b)
   \<and> localStorage (handleLogout logout b) = Map.empty
   \<and> sessionStorage (handleLogout logout b) = Map.empty
   \<and> route (handleLogout logout b) = ''/login''"
  by (simp add: handleLogout_def)

subsection \<open>Privileged controls\<close>

text \<open>
  C8. Once the client is loaded the profile is rendered, and in it the privileged
  controls depend on the role string alone: the "Completed" action is shown exactly
  when the role is "finance.employee", every contact card carries the "Edit" control
  exactly when the role is "finance.employee", and every document card carries the
  delete control exactly when the role is "admin" or "finance.employee". There is one
  card for each contact and for each document of the state, so a role that is neither
  of the two sees none of these controls.
\<close>

theorem render_privileged_controls:
  "client st = Some c \<Longrightarrow>
   \<exists>v. render role st = ClientProfile v
     \<and> completed_action v = (role = ''finance.employee'')
     \<and> map card_contact (contact_cards v) = contactPersons st
     \<and> map card_document (document_cards v) = documents st
     \<and> list_all (\<lambda>c. edit_control c = (role = ''finance.employee'')) (contact_cards v)
     \<and> list_all (\<lambda>d. delete_control d = (role = ''admin'' \<or> role = ''finance.employee''))
          (document_cards v)
     \<and> (role \<noteq> ''admin'' \<and> role \<noteq> ''finance.employee'' \<longrightarrow>
          \<not> completed_action v
          \<and> list_all (\<lambda>c. \<not> edit_control c) (contact_cards v)
          \<and> list_all (\<lambda>d. \<not> delete_control d) (document_cards v))"
  by (auto simp: render_def list_all_iff comp_def)

theorem render_privileged_controls_witness:
  "(\<exists>v. render ''finance.employee'' loaded_profile_state = ClientProfile v
       \<and> completed_action v
       \<and> length (contact_cards v) = 1 \<and> list_all edit_control (contact_cards v)
       \<and> length (document_cards v) = 2 \<and> list_all delete_control (document_cards v))
   \<and> (\<exists>v. render ''admin'' loaded_profile_state = ClientProfile v
       \<and> \<not> completed_action v
       \<and> length (contact_cards v) = 1 \<and> list_all (\<lambda>c. \<not> edit_control c) (contact_cards v)
       \<and> length (document_cards v) = 2 \<and> list_all delete_control (document_cards v))
   \<and> (\<exists>v. render ''employee'' loaded_profile_state = ClientProfile v
       \<and> \<not> completed_action v
       \<and> length (contact_cards v) = 1 \<and> list_all (\<lambda>c. \<not> edit_control c) (contact_cards v)
       \<and> length (document_cards v) = 2 \<and> list_all (\<lambda>d. \<not> delete_control d) (document_cards v))"
proof -
  have loaded: "client loaded_profile_state =
      Some [(''id'', Str ''c1''), (''name'', Str ''Zenith''), (''status'', Str ''ecomplete'')]"
    by (simp add: loaded_profile_state_def initial_profile_state_def)
  have contacts: "length (contactPersons loaded_profile_state) = 1"
    and docs: "length (documents loaded_profile_state) = 2"
    by (simp_all add: loaded_profile_state_def initial_profile_state_def)
  have cards: "length (contact_cards v) = 1 \<and> length (document_cards v) = 2"
    if "map card_contact (contact_cards v) = contactPersons loaded_profile_state"
      and "map card_document (document_cards v) = documents loaded_profile_state" for v
    using that contacts docs by (metis length_map)
  from render_privileged_controls [OF loaded, of "''finance.employee''"]
  obtain v1 where v1: "render ''finance.employee'' loaded_profile_state = ClientProfile v1"
      "completed_action v1" "list_all edit_control (contact_cards v1)"
      "list_all delete_control (document_cards v1)"
      "map card_contact (contact_cards v1) = contactPersons loaded_profile_state"
      "map card_document (document_cards v1) = documents loaded_profile_state"
    by auto
  from render_privileged_controls [OF loaded, of "''admin''"]
  obtain v2 where v2: "render ''admin'' loaded_profile_state = ClientProfile v2"
      "\<not> completed_action v2" "list_all (\<lambda>c. \<not> edit_control c) (contact_cards v2)"
      "list_all delete_control (document_cards v2)"
      "map card_contact (contact_cards v2) = contactPersons loaded_profile_state"
      "map card_document (document_cards v2) = documents loaded_profile_state"
    by auto
  from render_privileged_controls [OF loaded, of "''employee''"]
  obtain v3 where v3: "render ''employee'' loaded_profile_state = ClientProfile v3"
      "\<not> completed_action v3" "list_all (\<lambda>c. \<not> edit_control c) (contact_cards v3)"
      "list_all (\<lambda>d. \<not> delete_control d) (document_cards v3)"
      "map card_contact (contact_cards v3) = contactPersons loaded_profile_state"
      "map card_document (document_cards v3) = documents loaded_profile_state"
    by auto
  show ?thesis
    using v1 v2 v3 cards [of v1] cards [of v2] cards [of v3] by blast
qed

subsection \<open>Sending by mail\<close>




lemma and_then_simps [simp]:
  "and_then (Inl x) k = Inl x"
  "and_then (Inr v) k = k v"
  by (simp_all add: and_then_def)

lemma exception_is_TypeError [simp]: "(x :: js_exception) = TypeError"
  by (cases x)











subsection \<open>What loading the client changes\<close>

text \<open>
  C10. Loading the client data changes no view state other than \<open>client\<close> and
  \<open>contactPersons\<close> and leaves the backend as it was. Its remote calls are the
  single-row fetch of the client and, unless that fetch rejects, the select of the
  contact persons: the quotation query it builds is never sent. The view state after
  loading is the same whatever the \<open>quotations\<close> table holds and whatever the role is.
\<close>

theorem loadClientData_frame:
  "(let w' = loadClientData role cid f_client f_contacts w in
      ui w' = (ui w)\<lparr>client := client (ui w'), contactPersons := contactPersons (ui w')\<rparr>
    \<and> be w' = be w
    \<and> remote_calls w w' =
        (case f_client of
           Throws e \<Rightarrow> [Remote (Select (clientQuery cid) True)]
         | _ \<Rightarrow> [Remote (Select (clientQuery cid) True), Remote (Select (contactsQuery cid) False)])
    \<and> Remote (Select (quotationQuery role cid) False) \<notin> set (issued w w')
    \<and> ui (loadClientData role cid f_client f_contacts (set_table ''quotations'' qs w)) = ui w'
    \<and> ui (loadClientData role' cid f_client f_contacts w) = ui w')"
  unfolding Let_def
proof (intro conjI)
  let ?w' = "loadClientData role cid f_client f_contacts w"
  show "ui ?w' = (ui w)\<lparr>client := client (ui ?w'), contactPersons := contactPersons (ui ?w')\<rparr>"
    by (rule loadClientData_ui)
  show "be ?w' = be w" by simp
  show calls: "remote_calls w ?w' =
        (case f_client of
           Throws e \<Rightarrow> [Remote (Select (clientQuery cid) True)]
         | _ \<Rightarrow> [Remote (Select (clientQuery cid) True), Remote (Select (contactsQuery cid) False)])"
    by (rule loadClientData_calls)
  have "Remote (Select (quotationQuery role cid) False) \<notin> set (remote_calls w ?w')"
  proof
    assume "Remote (Select (quotationQuery role cid) False) \<in> set (remote_calls w ?w')"
    then have "quotationQuery role cid = contactsQuery cid"
      unfolding calls by (cases f_client) auto
    then have "q_table (quotationQuery role cid) = q_table (contactsQuery cid)" by simp
    then show False
      by (simp add: quotationQuery_def eq_filter_def select_cols_def from_table_def Let_def
            split: if_splits)
  qed
  then show "Remote (Select (quotationQuery role cid) False) \<notin> set (issued w ?w')"
    by (simp add: remote_calls_def)
  show "ui (loadClientData role cid f_client f_contacts (set_table ''quotations'' qs w)) = ui ?w'"
    by (rule loadClientData_quotations)
  show "ui (loadClientData role' cid f_client f_contacts w) = ui ?w'"
    by (simp add: loadClientData_role [of role' cid f_client f_contacts w role])
qed

theorem loadClientData_frame_witness:
  "remote_calls example_world (loadClientData ''employee'' (Some ''c1'') NoFault NoFault example_world) =
     [Remote (Select (clientQuery (Some ''c1'')) True), Remote (Select (contactsQuery (Some ''c1'')) False)]
   \<and> be (loadClientData ''employee'' (Some ''c1'') NoFault NoFault example_world) = be example_world
   \<and> ui (loadClientData ''employee'' (Some ''c1'') NoFault NoFault
            (set_table ''quotations'' [[(''id'', Str ''q1''), (''status'', Str ''approved'')]] example_world))
       = ui (loadClientData ''employee'' (Some ''c1'') NoFault NoFault example_world)"
  using loadClientData_frame
          [where role = "''employee''" and cid = "Some ''c1''" and f_client = NoFault
             and f_contacts = NoFault and w = example_world
             and qs = "[[(''id'', Str ''q1''), (''status'', Str ''approved'')]]"]
  by (simp add: Let_def)


end
